theory Spec2Isabelle
  imports Main "HOL-Library.AList"
begin

section \<open>Data model\<close>

text \<open>
  Timestamps are JavaScript \<open>Date\<close> values, read as milliseconds since the epoch.
  Every function that reads the clock (\<open>new Date()\<close>, \<open>Date.now()\<close>, a column
  default of the database) takes the instant of the call as the argument \<open>now\<close>; the
  clock reads inside one call are taken at that one instant.
\<close>

type_synonym timestamp = int

text \<open>
  The row types come from \<open>@shared/schema\<close>, which is not among the sources. The fields
  below are the ones the storage and authentication code reads or writes, with the names
  the code uses (prefixed where two row types share a field name).
\<close>

record AdminUser =
  au_id :: nat
  au_username :: string
  passwordHash :: string
  role :: string
  isActive :: bool
  lastLoginAt :: "timestamp option"
  au_createdAt :: timestamp
  updatedAt :: timestamp

record InsertLoginAttempt =
  ila_username :: string
  ila_ipAddress :: "string option"
  ila_successful :: bool

record LoginAttempt =
  la_id :: nat
  la_username :: string
  la_ipAddress :: "string option"
  successful :: bool
  attemptedAt :: timestamp

record Session =
  s_id :: string
  s_username :: string
  expiresAt :: timestamp

text \<open>
  The content entities (Release, Event, Post, Contact, Artist, RadioShow, Playlist, Video)
  are plain JavaScript objects whose column lists live in the missing schema. They are
  modelled as objects: an ordered list of field name and value, with the object spread
  \<open>{ ...a, ...b }\<close> of the source.
\<close>

datatype jsval =
    JNull
  | JBool bool
  | JNum int
  | JStr string
  | JDate timestamp
  | JArr "jsval list"

type_synonym obj = "(string \<times> jsval) list"

definition spread :: "obj \<Rightarrow> obj \<Rightarrow> obj" where
  "spread a b = fold (\<lambda>(k, v) acc. AList.update k v acc) b a"

datatype error =
    NotFound string
  | NoValuesToSet
  | QueryError
  | UniqueViolation

section \<open>DatabaseStorage\<close>

text \<open>
  A table is the list of its rows in insertion order; \<open>select().where(eq(col, v))\<close>
  keeps the rows whose column equals \<open>v\<close>, and \<open>result[0]\<close> is the first of them or
  \<open>undefined\<close> (\<open>None\<close>).
\<close>

record db =
  adminUsers :: "AdminUser list"
  loginAttempts :: "LoginAttempt list"
  sessions :: "Session list"
  releases :: "obj list"
  events :: "obj list"
  posts :: "obj list"
  contacts :: "obj list"
  artists :: "obj list"
  radioShows :: "obj list"
  playlists :: "obj list"
  videos :: "obj list"

definition first_row :: "'a list \<Rightarrow> 'a option" where
  "first_row result = (case result of [] \<Rightarrow> None | r # _ \<Rightarrow> Some r)"

definition Db_getAdminUserByUsername :: "db \<Rightarrow> string \<Rightarrow> AdminUser option" where
  "Db_getAdminUserByUsername d username =
     first_row (filter (\<lambda>a. au_username a = username) (adminUsers d))"

definition Db_updateAdminLastLogin :: "db \<Rightarrow> timestamp \<Rightarrow> string \<Rightarrow> db" where
  "Db_updateAdminLastLogin d now username =
     d\<lparr>adminUsers :=
         map (\<lambda>a. if au_username a = username
                   then a\<lparr>lastLoginAt := Some now, updatedAt := now\<rparr> else a)
             (adminUsers d)\<rparr>"

text \<open>
  Modelled from the spec: the column defaults of \<open>login_attempts\<close> (the schema is not
  among the sources). A LoginAttempt gets a generated id and \<open>attemptedAt\<close>, the instant of
  the insert; rows are append-only.
\<close>

definition next_serial :: "LoginAttempt list \<Rightarrow> nat" where
  "next_serial rows = Suc (fold max (map la_id rows) 0)"

definition Db_recordLoginAttempt :: "db \<Rightarrow> timestamp \<Rightarrow> InsertLoginAttempt \<Rightarrow> LoginAttempt \<times> db" where
  "Db_recordLoginAttempt d now attempt =
     (let row = \<lparr>la_id = next_serial (loginAttempts d),
                 la_username = ila_username attempt,
                 la_ipAddress = ila_ipAddress attempt,
                 successful = ila_successful attempt,
                 attemptedAt = now\<rparr>
      in (row, d\<lparr>loginAttempts := loginAttempts d @ [row]\<rparr>))"

text \<open>As in the source, \<open>cutoffTime\<close> is computed and the query does not use it.\<close>

definition Db_getRecentLoginAttempts :: "db \<Rightarrow> timestamp \<Rightarrow> string \<Rightarrow> int \<Rightarrow> LoginAttempt list" where
  "Db_getRecentLoginAttempts d now username minutes =
     (let cutoffTime = now - minutes * 60 * 1000
      in filter (\<lambda>a. la_username a = username) (loginAttempts d))"

subsection \<open>Sessions\<close>

text \<open>
  Whether \<open>sessions.id\<close> carries a primary-key or unique constraint is decided by the
  missing schema, so it is the parameter \<open>pk\<close>: with the constraint, inserting an id
  that is already stored fails; without it, the row is appended.
\<close>

definition Db_createSession :: "bool \<Rightarrow> db \<Rightarrow> Session \<Rightarrow> error + Session \<times> db" where
  "Db_createSession pk d session =
     (if pk \<and> s_id session \<in> set (map s_id (sessions d)) then Inl UniqueViolation
      else Inr (session, d\<lparr>sessions := sessions d @ [session]\<rparr>))"

definition Db_getSession :: "db \<Rightarrow> string \<Rightarrow> Session option" where
  "Db_getSession d sid = first_row (filter (\<lambda>s. s_id s = sid) (sessions d))"

definition Db_deleteSession :: "db \<Rightarrow> string \<Rightarrow> db" where
  "Db_deleteSession d sid = d\<lparr>sessions := filter (\<lambda>s. s_id s \<noteq> sid) (sessions d)\<rparr>"

definition Db_deleteExpiredSessions :: "db \<Rightarrow> timestamp \<Rightarrow> db" where
  "Db_deleteExpiredSessions d now = d\<lparr>sessions := filter (\<lambda>s. \<not> expiresAt s < now) (sessions d)\<rparr>"

section \<open>Authentication and rate limiting\<close>

definition MAX_LOGIN_ATTEMPTS :: nat where
  "MAX_LOGIN_ATTEMPTS = 5"

definition LOCKOUT_DURATION_MINUTES :: nat where
  "LOCKOUT_DURATION_MINUTES = 15"

definition ATTEMPT_WINDOW_MINUTES :: int where
  "ATTEMPT_WINDOW_MINUTES = 15"

text \<open>
  \<open>Number.prototype.toString(radix)\<close> on an integer, for a radix from 2 to 36:
  \<open>toStringRadix\<close> writes the digits of a non-negative integer, \<open>toString36\<close> adds the
  sign that JavaScript prints for a negative one.
\<close>

definition digit_char :: "nat \<Rightarrow> char" where
  "digit_char k = ''0123456789abcdefghijklmnopqrstuvwxyz'' ! (k mod 36)"

function toStringRadix :: "nat \<Rightarrow> nat \<Rightarrow> string" where
  "toStringRadix radix n =
     (if radix < 2 \<or> n < radix then [digit_char n]
      else toStringRadix radix (n div radix) @ [digit_char (n mod radix)])"
  by pat_completeness auto
termination
  by (relation "measure (\<lambda>(radix, n). n)") auto

text \<open>
  \<open>Math.random().toString(36).substring(2)\<close> is the argument \<open>rnd\<close>: the base-36
  digits after the point of the random number drawn (empty when the draw is 0).
\<close>

definition toString36 :: "int \<Rightarrow> string" where
  "toString36 i = (if i < 0 then CHR ''-'' # toStringRadix 36 (nat (- i)) else toStringRadix 36 (nat i))"

definition generateSessionId :: "string \<Rightarrow> timestamp \<Rightarrow> string" where
  "generateSessionId rnd now = rnd @ toString36 now"

definition createSession :: "bool \<Rightarrow> string \<Rightarrow> timestamp \<Rightarrow> string \<Rightarrow> db \<Rightarrow> error + string \<times> db" where
  "createSession pk rnd now username d =
     (let sessionId = generateSessionId rnd now;
          expires = now + 24 * 60 * 60 * 1000
      in case Db_createSession pk d \<lparr>s_id = sessionId, s_username = username, expiresAt = expires\<rparr> of
           Inl e \<Rightarrow> Inl e
         | Inr (_, d') \<Rightarrow> Inr (sessionId, d'))"

definition validateSession :: "timestamp \<Rightarrow> string \<Rightarrow> db \<Rightarrow> string option \<times> db" where
  "validateSession now sessionId d =
     (case Db_getSession d sessionId of
        None \<Rightarrow> (None, d)
      | Some session \<Rightarrow>
          if now > expiresAt session then (None, Db_deleteSession d sessionId)
          else (Some (s_username session), d))"

definition deleteSession :: "string \<Rightarrow> db \<Rightarrow> db" where
  "deleteSession sessionId d = Db_deleteSession d sessionId"

definition isRateLimited :: "db \<Rightarrow> timestamp \<Rightarrow> string \<Rightarrow> bool" where
  "isRateLimited d now username =
     (let recentAttempts = Db_getRecentLoginAttempts d now username ATTEMPT_WINDOW_MINUTES;
          failedAttempts = filter (\<lambda>attempt. \<not> successful attempt) recentAttempts
      in length failedAttempts \<ge> MAX_LOGIN_ATTEMPTS)"

record CredResult =
  valid :: bool
  message :: "string option"

definition lockout_message :: string where
  "lockout_message =
     ''Too many failed login attempts. Please try again in ''
       @ toStringRadix 10 LOCKOUT_DURATION_MINUTES @ '' minutes.''"

text \<open>
  \<open>bcrypt.compare(password, hash)\<close> is the parameter \<open>bcrypt_compare\<close>.
\<close>

definition validateCredentials ::
  "(string \<Rightarrow> string \<Rightarrow> bool) \<Rightarrow> timestamp \<Rightarrow> string \<Rightarrow> string \<Rightarrow> string option \<Rightarrow> db
     \<Rightarrow> CredResult \<times> db" where
  "validateCredentials bcrypt_compare now username password ipAddress d =
     (if isRateLimited d now username then
        (\<lparr>valid = False, message = Some lockout_message\<rparr>,
         snd (Db_recordLoginAttempt d now
                \<lparr>ila_username = username, ila_ipAddress = ipAddress, ila_successful = False\<rparr>))
      else
        case Db_getAdminUserByUsername d username of
          None \<Rightarrow>
            (\<lparr>valid = False, message = Some ''Invalid credentials''\<rparr>,
             snd (Db_recordLoginAttempt d now
                    \<lparr>ila_username = username, ila_ipAddress = ipAddress, ila_successful = False\<rparr>))
        | Some adminUser \<Rightarrow>
            if \<not> isActive adminUser then
              (\<lparr>valid = False, message = Some ''Account is inactive''\<rparr>,
               snd (Db_recordLoginAttempt d now
                      \<lparr>ila_username = username, ila_ipAddress = ipAddress, ila_successful = False\<rparr>))
            else
              let isValid = bcrypt_compare password (passwordHash adminUser);
                  d1 = snd (Db_recordLoginAttempt d now
                              \<lparr>ila_username = username, ila_ipAddress = ipAddress,
                               ila_successful = isValid\<rparr>)
              in if isValid then (\<lparr>valid = True, message = None\<rparr>, Db_updateAdminLastLogin d1 now username)
                 else (\<lparr>valid = False, message = Some ''Invalid credentials''\<rparr>, d1))"

section \<open>MemStorage\<close>

text \<open>
  A JavaScript \<open>Map\<close> with string keys: the entries in insertion order. \<open>set\<close> on a
  stored key replaces the value in place, on a new key appends (\<open>AList.update\<close>);
  \<open>get\<close> is \<open>map_of\<close>, \<open>delete\<close> is \<open>AList.delete\<close>, and \<open>values()\<close> lists the
  values in order.
\<close>

type_synonym 'v jsmap = "(string \<times> 'v) list"

definition map_values :: "'v jsmap \<Rightarrow> 'v list" where
  "map_values m = map snd m"

record MemStorage =
  m_users :: "obj jsmap"
  m_adminUsers :: "AdminUser jsmap"
  m_loginAttempts :: "LoginAttempt list"
  m_releases :: "obj jsmap"
  m_events :: "obj jsmap"
  m_posts :: "obj jsmap"
  m_contacts :: "obj jsmap"
  m_artists :: "obj jsmap"
  m_radioShows :: "obj jsmap"
  m_playlists :: "obj jsmap"
  m_videos :: "obj jsmap"

text \<open>The key \<open>a.id\<close> of a seeded object; every seeded object has a string id.\<close>

definition id_of :: "obj \<Rightarrow> string" where
  "id_of a = (case map_of a ''id'' of Some (JStr s) \<Rightarrow> s | _ \<Rightarrow> [])"

definition set_each :: "obj list \<Rightarrow> obj jsmap \<Rightarrow> obj jsmap" where
  "set_each xs m = fold (\<lambda>a acc. AList.update (id_of a) a acc) xs m"

text \<open>
  The seed data. The k-th call of \<open>randomUUID()\<close> in the constructor returns \<open>uuid k\<close>.
\<close>

definition seed_artists :: "(nat \<Rightarrow> string) \<Rightarrow> timestamp \<Rightarrow> obj list" where
  "seed_artists uuid now =
     [[(''id'', JStr (uuid 0)), (''name'', JStr ''Luna Wave''), (''slug'', JStr ''luna-wave''),
       (''bio'', JStr ''Electronic music producer from Berlin''),
       (''imageUrl'', JStr ''https://images.unsplash.com/photo-1493225457124-a3eb161ffa5f?w=400&h=400&fit=crop''),
       (''featured'', JBool True), (''createdAt'', JDate now)],
      [(''id'', JStr (uuid 1)), (''name'', JStr ''Neon Pulse''), (''slug'', JStr ''neon-pulse''),
       (''bio'', JStr ''Techno artist pushing boundaries''),
       (''imageUrl'', JStr ''https://images.unsplash.com/photo-1514320291840-2e0a9bf2a9ae?w=400&h=400&fit=crop''),
       (''featured'', JBool True), (''createdAt'', JDate now)],
      [(''id'', JStr (uuid 2)), (''name'', JStr ''Aqua Dreams''), (''slug'', JStr ''aqua-dreams''),
       (''bio'', JStr ''Deep house specialist''),
       (''imageUrl'', JStr ''https://images.unsplash.com/photo-1470225620780-dba8ba36b745?w=400&h=400&fit=crop''),
       (''featured'', JBool False), (''createdAt'', JDate now)]]"

definition seed_releases :: "(nat \<Rightarrow> string) \<Rightarrow> timestamp \<Rightarrow> obj list" where
  "seed_releases uuid now =
     [[(''id'', JStr (uuid 3)), (''title'', JStr ''Midnight Sessions''), (''slug'', JStr ''midnight-sessions''),
       (''artistName'', JStr ''Luna Wave''),
       (''coverUrl'', JStr ''https://images.unsplash.com/photo-1493225457124-a3eb161ffa5f?w=400&h=400&fit=crop''),
       (''type'', JStr ''album''), (''genres'', JArr [JStr ''Electronic'', JStr ''House'']),
       (''published'', JBool True), (''featured'', JBool True),
       (''releaseDate'', JDate 1705276800000), (''createdAt'', JDate now)],
      [(''id'', JStr (uuid 4)), (''title'', JStr ''Echoes of Tomorrow''), (''slug'', JStr ''echoes-of-tomorrow''),
       (''artistName'', JStr ''Neon Pulse''),
       (''coverUrl'', JStr ''https://images.unsplash.com/photo-1514320291840-2e0a9bf2a9ae?w=400&h=400&fit=crop''),
       (''type'', JStr ''single''), (''genres'', JArr [JStr ''Techno'']),
       (''published'', JBool True), (''featured'', JBool False),
       (''releaseDate'', JDate 1706745600000), (''createdAt'', JDate now)],
      [(''id'', JStr (uuid 5)), (''title'', JStr ''Deep Waters''), (''slug'', JStr ''deep-waters''),
       (''artistName'', JStr ''Aqua Dreams''),
       (''coverUrl'', JStr ''https://images.unsplash.com/photo-1470225620780-dba8ba36b745?w=400&h=400&fit=crop''),
       (''type'', JStr ''ep''), (''genres'', JArr [JStr ''Deep House'']),
       (''published'', JBool True), (''featured'', JBool True),
       (''releaseDate'', JDate 1707523200000), (''createdAt'', JDate now)]]"

definition seed_events :: "(nat \<Rightarrow> string) \<Rightarrow> timestamp \<Rightarrow> obj list" where
  "seed_events uuid now =
     [[(''id'', JStr (uuid 6)), (''title'', JStr ''GroupTherapy Sessions Vol. 1''),
       (''slug'', JStr ''grouptherapy-sessions-vol-1''), (''venue'', JStr ''Warehouse 23''),
       (''city'', JStr ''London''), (''country'', JStr ''UK''),
       (''date'', JDate (now + 7 * 24 * 60 * 60 * 1000)),
       (''imageUrl'', JStr ''https://images.unsplash.com/photo-1540039155733-5bb30b53aa14?w=600&h=400&fit=crop''),
       (''ticketPrice'', JStr ''25''), (''published'', JBool True), (''featured'', JBool True),
       (''createdAt'', JDate now)],
      [(''id'', JStr (uuid 7)), (''title'', JStr ''Summer Festival 2024''),
       (''slug'', JStr ''summer-festival-2024''), (''venue'', JStr ''Victoria Park''),
       (''city'', JStr ''Manchester''), (''country'', JStr ''UK''),
       (''date'', JDate (now + 14 * 24 * 60 * 60 * 1000)),
       (''imageUrl'', JStr ''https://images.unsplash.com/photo-1459749411175-04bf5292ceea?w=600&h=400&fit=crop''),
       (''ticketPrice'', JStr ''45''), (''published'', JBool True), (''featured'', JBool False),
       (''createdAt'', JDate now)]]"

definition seed_posts :: "(nat \<Rightarrow> string) \<Rightarrow> timestamp \<Rightarrow> obj list" where
  "seed_posts uuid now =
     [[(''id'', JStr (uuid 8)), (''title'', JStr ''GroupTherapy Announces Summer Festival 2024 Lineup''),
       (''slug'', JStr ''summer-festival-2024-lineup''),
       (''excerpt'', JStr ''Get ready for the biggest GroupTherapy event yet!''),
       (''coverUrl'', JStr ''https://images.unsplash.com/photo-1459749411175-04bf5292ceea?w=800&h=400&fit=crop''),
       (''category'', JStr ''events''), (''published'', JBool True), (''featured'', JBool True),
       (''publishedAt'', JDate 1709251200000), (''authorName'', JStr ''GroupTherapy Team''),
       (''createdAt'', JDate now)],
      [(''id'', JStr (uuid 9)),
       (''title'', JStr (''Luna Wave Drops New Album '' @ [CHR 0x27] @ ''Midnight Sessions'' @ [CHR 0x27])),
       (''slug'', JStr ''luna-wave-midnight-sessions''),
       (''excerpt'', JStr ''After two years in the making, Luna Wave delivers her most ambitious project to date.''),
       (''coverUrl'', JStr ''https://images.unsplash.com/photo-1493225457124-a3eb161ffa5f?w=800&h=400&fit=crop''),
       (''category'', JStr ''releases''), (''published'', JBool True), (''featured'', JBool False),
       (''publishedAt'', JDate 1709078400000), (''authorName'', JStr ''Sarah Chen''),
       (''createdAt'', JDate now)]]"

definition seed_shows :: "(nat \<Rightarrow> string) \<Rightarrow> timestamp \<Rightarrow> obj list" where
  "seed_shows uuid now =
     [[(''id'', JStr (uuid 10)), (''title'', JStr ''Morning Therapy''), (''slug'', JStr ''morning-therapy''),
       (''hostName'', JStr ''DJ Luna''),
       (''description'', JStr ''Wake up with the smoothest electronic beats''),
       (''dayOfWeek'', JNum 1), (''startTime'', JStr ''07:00''), (''endTime'', JStr ''10:00''),
       (''timezone'', JStr ''UTC''), (''published'', JBool True), (''isLive'', JBool False),
       (''createdAt'', JDate now)],
      [(''id'', JStr (uuid 11)), (''title'', JStr ''Peak Time Sessions''), (''slug'', JStr ''peak-time-sessions''),
       (''hostName'', JStr ''Neon Pulse''),
       (''description'', JStr ''High-energy techno and house''),
       (''dayOfWeek'', JNum 2), (''startTime'', JStr ''20:00''), (''endTime'', JStr ''23:00''),
       (''timezone'', JStr ''UTC''), (''published'', JBool True), (''isLive'', JBool True),
       (''createdAt'', JDate now)]]"

definition seedData :: "(nat \<Rightarrow> string) \<Rightarrow> timestamp \<Rightarrow> MemStorage \<Rightarrow> MemStorage" where
  "seedData uuid now m =
     (let m1 = m\<lparr>m_artists := set_each (seed_artists uuid now) (m_artists m)\<rparr>;
          m2 = m1\<lparr>m_releases := set_each (seed_releases uuid now) (m_releases m1)\<rparr>;
          m3 = m2\<lparr>m_events := set_each (seed_events uuid now) (m_events m2)\<rparr>;
          m4 = m3\<lparr>m_posts := set_each (seed_posts uuid now) (m_posts m3)\<rparr>
      in m4\<lparr>m_radioShows := set_each (seed_shows uuid now) (m_radioShows m4)\<rparr>)"

definition MemStorage_new :: "(nat \<Rightarrow> string) \<Rightarrow> timestamp \<Rightarrow> MemStorage" where
  "MemStorage_new uuid now =
     seedData uuid now
       \<lparr>m_users = [], m_adminUsers = [], m_loginAttempts = [], m_releases = [], m_events = [],
        m_posts = [], m_contacts = [], m_artists = [], m_radioShows = [], m_playlists = [],
        m_videos = []\<rparr>"

subsection \<open>Login attempts\<close>

definition Mem_recordLoginAttempt ::
  "MemStorage \<Rightarrow> timestamp \<Rightarrow> InsertLoginAttempt \<Rightarrow> LoginAttempt \<times> MemStorage" where
  "Mem_recordLoginAttempt m now insertAttempt =
     (let attempt = \<lparr>la_id = length (m_loginAttempts m) + 1,
                     la_username = ila_username insertAttempt,
                     la_ipAddress = ila_ipAddress insertAttempt,
                     successful = ila_successful insertAttempt,
                     attemptedAt = now\<rparr>
      in (attempt, m\<lparr>m_loginAttempts := m_loginAttempts m @ [attempt]\<rparr>))"

definition Mem_getRecentLoginAttempts ::
  "MemStorage \<Rightarrow> timestamp \<Rightarrow> string \<Rightarrow> int \<Rightarrow> LoginAttempt list" where
  "Mem_getRecentLoginAttempts m now username minutes =
     (let cutoffTime = now - minutes * 60 * 1000
      in filter (\<lambda>attempt. la_username attempt = username \<and> attemptedAt attempt \<ge> cutoffTime)
           (m_loginAttempts m))"

subsection \<open>Content entities: list-all and update-by-id\<close>

definition Mem_getAllReleases :: "MemStorage \<Rightarrow> obj list" where
  "Mem_getAllReleases m = map_values (m_releases m)"

definition Mem_getAllEvents :: "MemStorage \<Rightarrow> obj list" where
  "Mem_getAllEvents m = map_values (m_events m)"

definition Mem_getAllPosts :: "MemStorage \<Rightarrow> obj list" where
  "Mem_getAllPosts m = map_values (m_posts m)"

definition Mem_getAllContacts :: "MemStorage \<Rightarrow> obj list" where
  "Mem_getAllContacts m = map_values (m_contacts m)"

definition Mem_getAllArtists :: "MemStorage \<Rightarrow> obj list" where
  "Mem_getAllArtists m = map_values (m_artists m)"

definition Mem_getAllRadioShows :: "MemStorage \<Rightarrow> obj list" where
  "Mem_getAllRadioShows m = map_values (m_radioShows m)"

definition Mem_getAllPlaylists :: "MemStorage \<Rightarrow> obj list" where
  "Mem_getAllPlaylists m = map_values (m_playlists m)"

definition Mem_getAllVideos :: "MemStorage \<Rightarrow> obj list" where
  "Mem_getAllVideos m = map_values (m_videos m)"

definition Mem_getReleaseById :: "MemStorage \<Rightarrow> string \<Rightarrow> obj option" where
  "Mem_getReleaseById m rid = map_of (m_releases m) rid"

definition Mem_deleteRelease :: "MemStorage \<Rightarrow> string \<Rightarrow> MemStorage" where
  "Mem_deleteRelease m rid = m\<lparr>m_releases := AList.delete rid (m_releases m)\<rparr>"

text \<open>
  The eight \<open>update\<close> methods share one body: look the id up, throw
  \<open>Error("... not found")\<close> when it is missing, else store and return the merged object.
\<close>

definition mem_update :: "string \<Rightarrow> obj jsmap \<Rightarrow> string \<Rightarrow> obj \<Rightarrow> error + obj \<times> obj jsmap" where
  "mem_update msg tbl ident upd =
     (case map_of tbl ident of
        None \<Rightarrow> Inl (NotFound msg)
      | Some existing \<Rightarrow>
          (let updated = spread existing upd
           in Inr (updated, AList.update ident updated tbl)))"

definition Mem_updateRelease :: "MemStorage \<Rightarrow> string \<Rightarrow> obj \<Rightarrow> error + obj \<times> MemStorage" where
  "Mem_updateRelease m ident upd =
     map_sum id (\<lambda>(r, t). (r, m\<lparr>m_releases := t\<rparr>)) (mem_update ''Release not found'' (m_releases m) ident upd)"

definition Mem_updateEvent :: "MemStorage \<Rightarrow> string \<Rightarrow> obj \<Rightarrow> error + obj \<times> MemStorage" where
  "Mem_updateEvent m ident upd =
     map_sum id (\<lambda>(r, t). (r, m\<lparr>m_events := t\<rparr>)) (mem_update ''Event not found'' (m_events m) ident upd)"

definition Mem_updatePost :: "MemStorage \<Rightarrow> string \<Rightarrow> obj \<Rightarrow> error + obj \<times> MemStorage" where
  "Mem_updatePost m ident upd =
     map_sum id (\<lambda>(r, t). (r, m\<lparr>m_posts := t\<rparr>)) (mem_update ''Post not found'' (m_posts m) ident upd)"

definition Mem_updateContact :: "MemStorage \<Rightarrow> string \<Rightarrow> obj \<Rightarrow> error + obj \<times> MemStorage" where
  "Mem_updateContact m ident upd =
     map_sum id (\<lambda>(r, t). (r, m\<lparr>m_contacts := t\<rparr>)) (mem_update ''Contact not found'' (m_contacts m) ident upd)"

definition Mem_updateArtist :: "MemStorage \<Rightarrow> string \<Rightarrow> obj \<Rightarrow> error + obj \<times> MemStorage" where
  "Mem_updateArtist m ident upd =
     map_sum id (\<lambda>(r, t). (r, m\<lparr>m_artists := t\<rparr>)) (mem_update ''Artist not found'' (m_artists m) ident upd)"

definition Mem_updateRadioShow :: "MemStorage \<Rightarrow> string \<Rightarrow> obj \<Rightarrow> error + obj \<times> MemStorage" where
  "Mem_updateRadioShow m ident upd =
     map_sum id (\<lambda>(r, t). (r, m\<lparr>m_radioShows := t\<rparr>)) (mem_update ''Radio show not found'' (m_radioShows m) ident upd)"

definition Mem_updatePlaylist :: "MemStorage \<Rightarrow> string \<Rightarrow> obj \<Rightarrow> error + obj \<times> MemStorage" where
  "Mem_updatePlaylist m ident upd =
     map_sum id (\<lambda>(r, t). (r, m\<lparr>m_playlists := t\<rparr>)) (mem_update ''Playlist not found'' (m_playlists m) ident upd)"

definition Mem_updateVideo :: "MemStorage \<Rightarrow> string \<Rightarrow> obj \<Rightarrow> error + obj \<times> MemStorage" where
  "Mem_updateVideo m ident upd =
     map_sum id (\<lambda>(r, t). (r, m\<lparr>m_videos := t\<rparr>)) (mem_update ''Video not found'' (m_videos m) ident upd)"

section \<open>DatabaseStorage: update-by-id of the content entities\<close>

text \<open>
  The columns of the content tables are declared in the missing schema; they are taken
  from the objects the source builds for each entity type: the field lists of
  \<open>createContact\<close>, \<open>createArtist\<close>, \<open>createRadioShow\<close>, \<open>createPlaylist\<close> and
  \<open>createVideo\<close>, and the fields of the seed objects for releases, events and posts.
\<close>

definition release_columns :: "string list" where
  "release_columns =
     [''id'', ''title'', ''slug'', ''artistName'', ''coverUrl'', ''type'', ''genres'',
      ''published'', ''featured'', ''releaseDate'', ''createdAt'']"

definition event_columns :: "string list" where
  "event_columns =
     [''id'', ''title'', ''slug'', ''venue'', ''city'', ''country'', ''date'', ''imageUrl'',
      ''ticketPrice'', ''published'', ''featured'', ''createdAt'']"

definition post_columns :: "string list" where
  "post_columns =
     [''id'', ''title'', ''slug'', ''excerpt'', ''coverUrl'', ''category'', ''published'',
      ''featured'', ''publishedAt'', ''authorName'', ''createdAt'']"

definition contact_columns :: "string list" where
  "contact_columns =
     [''id'', ''name'', ''email'', ''message'', ''subject'', ''category'', ''attachmentUrl'',
      ''status'', ''createdAt'']"

definition artist_columns :: "string list" where
  "artist_columns =
     [''id'', ''name'', ''slug'', ''bio'', ''imageUrl'', ''spotifyArtistId'', ''socialLinks'',
      ''featured'', ''createdAt'']"

definition radioShow_columns :: "string list" where
  "radioShow_columns =
     [''id'', ''title'', ''slug'', ''hostName'', ''description'', ''hostBio'', ''hostImageUrl'',
      ''coverUrl'', ''streamUrl'', ''recordedUrl'', ''dayOfWeek'', ''startTime'', ''endTime'',
      ''timezone'', ''isLive'', ''published'', ''createdAt'']"

definition playlist_columns :: "string list" where
  "playlist_columns =
     [''id'', ''title'', ''slug'', ''featured'', ''coverUrl'', ''spotifyUrl'', ''published'',
      ''description'', ''spotifyPlaylistId'', ''trackCount'', ''createdAt'']"

definition video_columns :: "string list" where
  "video_columns =
     [''id'', ''title'', ''slug'', ''featured'', ''artistId'', ''artistName'', ''published'',
      ''description'', ''thumbnailUrl'', ''videoUrl'', ''youtubeId'', ''duration'', ''category'',
      ''vimeoId'', ''createdAt'']"

text \<open>
  \<open>update(t).set(update).where(eq(t.id, id)).returning()\<close>. The query builder rejects
  an empty \<open>update\<close> object before any query runs. Of a non-empty one only the keys
  that are columns of the table reach the statement; when none is left the statement is
  malformed and the call rejects with a query error. Otherwise the remaining values are
  merged into every row whose id column equals \<open>id\<close>, the changed rows are returned, and
  the method returns \<open>result[0]\<close>, which is \<open>undefined\<close> (\<open>None\<close>) when no row matched.
\<close>

definition has_id :: "string \<Rightarrow> obj \<Rightarrow> bool" where
  "has_id ident r = (map_of r ''id'' = Some (JStr ident))"

definition column_values :: "string list \<Rightarrow> obj \<Rightarrow> obj" where
  "column_values columns upd = filter (\<lambda>(k, v). k \<in> set columns) upd"

definition db_update ::
  "string list \<Rightarrow> obj list \<Rightarrow> string \<Rightarrow> obj \<Rightarrow> error + obj option \<times> obj list" where
  "db_update columns tbl ident upd =
     (if upd = [] then Inl NoValuesToSet
      else if column_values columns upd = [] then Inl QueryError
      else
        (let vals = column_values columns upd;
             result = map (\<lambda>r. spread r vals) (filter (has_id ident) tbl)
         in Inr (first_row result, map (\<lambda>r. if has_id ident r then spread r vals else r) tbl)))"

definition Db_updateRelease :: "db \<Rightarrow> string \<Rightarrow> obj \<Rightarrow> error + obj option \<times> db" where
  "Db_updateRelease d ident upd =
     map_sum id (\<lambda>(r, t). (r, d\<lparr>releases := t\<rparr>))
       (db_update release_columns (releases d) ident upd)"

definition Db_updateEvent :: "db \<Rightarrow> string \<Rightarrow> obj \<Rightarrow> error + obj option \<times> db" where
  "Db_updateEvent d ident upd =
     map_sum id (\<lambda>(r, t). (r, d\<lparr>events := t\<rparr>))
       (db_update event_columns (events d) ident upd)"

definition Db_updatePost :: "db \<Rightarrow> string \<Rightarrow> obj \<Rightarrow> error + obj option \<times> db" where
  "Db_updatePost d ident upd =
     map_sum id (\<lambda>(r, t). (r, d\<lparr>posts := t\<rparr>))
       (db_update post_columns (posts d) ident upd)"

definition Db_updateContact :: "db \<Rightarrow> string \<Rightarrow> obj \<Rightarrow> error + obj option \<times> db" where
  "Db_updateContact d ident upd =
     map_sum id (\<lambda>(r, t). (r, d\<lparr>contacts := t\<rparr>))
       (db_update contact_columns (contacts d) ident upd)"

definition Db_updateArtist :: "db \<Rightarrow> string \<Rightarrow> obj \<Rightarrow> error + obj option \<times> db" where
  "Db_updateArtist d ident upd =
     map_sum id (\<lambda>(r, t). (r, d\<lparr>artists := t\<rparr>))
       (db_update artist_columns (artists d) ident upd)"

definition Db_updateRadioShow :: "db \<Rightarrow> string \<Rightarrow> obj \<Rightarrow> error + obj option \<times> db" where
  "Db_updateRadioShow d ident upd =
     map_sum id (\<lambda>(r, t). (r, d\<lparr>radioShows := t\<rparr>))
       (db_update radioShow_columns (radioShows d) ident upd)"

definition Db_updatePlaylist :: "db \<Rightarrow> string \<Rightarrow> obj \<Rightarrow> error + obj option \<times> db" where
  "Db_updatePlaylist d ident upd =
     map_sum id (\<lambda>(r, t). (r, d\<lparr>playlists := t\<rparr>))
       (db_update playlist_columns (playlists d) ident upd)"

definition Db_updateVideo :: "db \<Rightarrow> string \<Rightarrow> obj \<Rightarrow> error + obj option \<times> db" where
  "Db_updateVideo d ident upd =
     map_sum id (\<lambda>(r, t). (r, d\<lparr>videos := t\<rparr>))
       (db_update video_columns (videos d) ident upd)"

section \<open>Sequences of authentication requests\<close>

text \<open>
  The authentication functions as one step function on the database, so that a property
  of every later call can be stated over an arbitrary sequence of requests.
\<close>

datatype request =
    Login timestamp string string "string option"
  | CreateSession string timestamp string
  | ValidateSession timestamp string
  | DeleteSession string

datatype response =
    LoginResult CredResult
  | SessionCreated "error + string"
  | SessionUser "string option"
  | SessionDeleted

fun handle :: "bool \<Rightarrow> (string \<Rightarrow> string \<Rightarrow> bool) \<Rightarrow> request \<Rightarrow> db \<Rightarrow> response \<times> db" where
  "handle pk cmp (Login now username password ip) d =
     (let (r, d') = validateCredentials cmp now username password ip d in (LoginResult r, d'))"
| "handle pk cmp (CreateSession rnd now username) d =
     (case createSession pk rnd now username d of
        Inl e \<Rightarrow> (SessionCreated (Inl e), d)
      | Inr (sid, d') \<Rightarrow> (SessionCreated (Inr sid), d'))"
| "handle pk cmp (ValidateSession now sid) d =
     (let (u, d') = validateSession now sid d in (SessionUser u, d'))"
| "handle pk cmp (DeleteSession sid) d = (SessionDeleted, deleteSession sid d)"

fun run :: "bool \<Rightarrow> (string \<Rightarrow> string \<Rightarrow> bool) \<Rightarrow> request list \<Rightarrow> db \<Rightarrow> response list" where
  "run pk cmp [] d = []"
| "run pk cmp (q # qs) d = (let (r, d') = handle pk cmp q d in r # run pk cmp qs d')"

section \<open>Example states\<close>

definition empty_db :: db where
  "empty_db =
     \<lparr>adminUsers = [], loginAttempts = [], sessions = [], releases = [], events = [], posts = [],
      contacts = [], artists = [], radioShows = [], playlists = [], videos = []\<rparr>"

text \<open>A stand-in for bcrypt in the examples: the hash of \<open>p\<close> is \<open>''$2a$10$'' @ p\<close>.\<close>

definition toy_compare :: "string \<Rightarrow> string \<Rightarrow> bool" where
  "toy_compare password hash = (hash = ''$2a$10$'' @ password)"

definition admin_row :: AdminUser where
  "admin_row =
     \<lparr>au_id = 1, au_username = ''admin'', passwordHash = ''$2a$10$secret123'', role = ''admin'',
      isActive = True, lastLoginAt = None, au_createdAt = 1700000000000,
      updatedAt = 1700000000000\<rparr>"

definition failed_attempt :: "nat \<Rightarrow> timestamp \<Rightarrow> LoginAttempt" where
  "failed_attempt k t =
     \<lparr>la_id = k, la_username = ''admin'', la_ipAddress = Some ''203.0.113.7'', successful = False,
      attemptedAt = t\<rparr>"

text \<open>Five failed logins of \<open>admin\<close>, one second apart, starting at 1700000000000.\<close>

definition stale_db :: db where
  "stale_db =
     empty_db\<lparr>adminUsers := [admin_row],
              loginAttempts :=
                [failed_attempt 1 1700000000000, failed_attempt 2 1700000001000,
                 failed_attempt 3 1700000002000, failed_attempt 4 1700000003000,
                 failed_attempt 5 1700000004000]\<rparr>"

definition session_db :: db where
  "session_db =
     empty_db\<lparr>adminUsers := [admin_row],
              sessions := [\<lparr>s_id = ''k3xloyw3v28'', s_username = ''admin'',
                            expiresAt = 1700086400000\<rparr>]\<rparr>"

definition demo_uuid :: "nat \<Rightarrow> string" where
  "demo_uuid k = ''3f2b8c1e-7a4d-4e6f-9b0a-5c1d2e3f4a'' @ toStringRadix 10 (10 + k)"

text \<open>
  \<open>session_db\<close> after a second session was stored under the id it already holds
  (possible only without a uniqueness constraint on \<open>sessions.id\<close>).
\<close>

definition collided_db :: db where
  "collided_db =
     session_db\<lparr>sessions := sessions session_db @
        [\<lparr>s_id = ''k3xloyw3v28'', s_username = ''alice'', expiresAt = 1700086400000\<rparr>]\<rparr>"

text \<open>A partial update, as the body of a PATCH request carries it.\<close>

definition missing_update :: obj where
  "missing_update = [(''title'', JStr ''Renamed'')]"

text \<open>A partial update of a Contact or an Artist, which have a name and no title.\<close>

definition rename_update :: obj where
  "rename_update = [(''name'', JStr ''Renamed'')]"



definition old_attempt :: InsertLoginAttempt where
  "old_attempt =
     \<lparr>ila_username = ''admin'', ila_ipAddress = Some ''203.0.113.7'', ila_successful = False\<rparr>"

section \<open>Lemmas about the tables\<close>

lemma first_row_None_iff: "first_row (filter P xs) = None \<longleftrightarrow> (\<forall>x\<in>set xs. \<not> P x)"
  by (induction xs) (auto simp: first_row_def)

lemma first_row_SomeD: "first_row (filter P xs) = Some x \<Longrightarrow> P x \<and> x \<in> set xs"
  by (induction xs) (auto simp: first_row_def split: if_splits)

lemma first_row_append_absent:
  "\<forall>x\<in>set xs. \<not> P x \<Longrightarrow> P y \<Longrightarrow> first_row (filter P (xs @ [y])) = Some y"
  by (induction xs) (auto simp: first_row_def)

text \<open>
  The rate limit of the database-backed service counts every failed attempt of the
  username, whatever its age: the instant of the call does not occur on the right.
\<close>

lemma isRateLimited_all_time:
  "isRateLimited d now u \<longleftrightarrow>
     5 \<le> length (filter (\<lambda>a. la_username a = u \<and> \<not> successful a) (loginAttempts d))"
  by (simp add: isRateLimited_def Db_getRecentLoginAttempts_def MAX_LOGIN_ATTEMPTS_def conj_commute)

lemma loginAttempts_recordLoginAttempt:
  "loginAttempts (snd (Db_recordLoginAttempt d now a)) =
     loginAttempts d @ [\<lparr>la_id = next_serial (loginAttempts d), la_username = ila_username a,
        la_ipAddress = ila_ipAddress a, successful = ila_successful a, attemptedAt = now\<rparr>]"
  by (simp add: Db_recordLoginAttempt_def Let_def)

lemma loginAttempts_updateAdminLastLogin:
  "loginAttempts (Db_updateAdminLastLogin d now u) = loginAttempts d"
  by (simp add: Db_updateAdminLastLogin_def)

lemma valid_validateCredentials:
  "valid (fst (validateCredentials cmp now u p ip d)) =
     (\<not> isRateLimited d now u \<and>
      (case Db_getAdminUserByUsername d u of None \<Rightarrow> False
       | Some a \<Rightarrow> isActive a \<and> cmp p (passwordHash a)))"
  by (simp add: validateCredentials_def Let_def split: option.splits)

lemma loginAttempts_validateCredentials:
  "loginAttempts (snd (validateCredentials cmp now u p ip d)) =
     loginAttempts d @ [\<lparr>la_id = next_serial (loginAttempts d), la_username = u,
        la_ipAddress = ip, successful = valid (fst (validateCredentials cmp now u p ip d)),
        attemptedAt = now\<rparr>]"
  by (simp add: validateCredentials_def Let_def loginAttempts_recordLoginAttempt
        loginAttempts_updateAdminLastLogin split: option.splits)

lemma example_lockout_message:
  "lockout_message = ''Too many failed login attempts. Please try again in 15 minutes.''"
  by (simp add: lockout_message_def LOCKOUT_DURATION_MINUTES_def digit_char_def)

section \<open>Every login call is logged once\<close>

text \<open>
  Claim C2. Every call of \<open>validateCredentials(username, password, ipAddress)\<close> appends
  exactly one LoginAttempt row, for that username and address and stamped with the instant
  of the call, and leaves the earlier rows as they were. This holds on the lockout path,
  the unknown-username path, the inactive-account path and the password path alike. The
  row's \<open>successful\<close> flag is the \<open>valid\<close> flag returned, which is true exactly when the
  call was not locked out, the account exists and is active, and the password verified.
\<close>

theorem validateCredentials_records_one_attempt:
  "loginAttempts (snd (validateCredentials cmp now u p ip d)) =
     loginAttempts d @ [\<lparr>la_id = next_serial (loginAttempts d), la_username = u,
        la_ipAddress = ip, successful = valid (fst (validateCredentials cmp now u p ip d)),
        attemptedAt = now\<rparr>]
   \<and> valid (fst (validateCredentials cmp now u p ip d)) =
       (\<not> isRateLimited d now u \<and>
        (case Db_getAdminUserByUsername d u of None \<Rightarrow> False
         | Some a \<Rightarrow> isActive a \<and> cmp p (passwordHash a)))"
  using loginAttempts_validateCredentials valid_validateCredentials by blast

theorem validateCredentials_records_one_attempt_witness:
  "loginAttempts (snd (validateCredentials toy_compare 1700000000000 ''admin'' ''secret123''
                         (Some ''203.0.113.7'') session_db)) =
     [\<lparr>la_id = 1, la_username = ''admin'', la_ipAddress = Some ''203.0.113.7'',
       successful = True, attemptedAt = 1700000000000\<rparr>]
   \<and> loginAttempts (snd (validateCredentials toy_compare 1700000000000 ''admin'' ''guess''
                         None session_db)) =
     [\<lparr>la_id = 1, la_username = ''admin'', la_ipAddress = None,
       successful = False, attemptedAt = 1700000000000\<rparr>]"
proof -
  have g: "Db_getAdminUserByUsername session_db ''admin'' = Some admin_row"
    by (simp add: Db_getAdminUserByUsername_def session_db_def empty_db_def admin_row_def first_row_def)
  have r: "\<not> isRateLimited session_db 1700000000000 ''admin''"
    by (simp add: isRateLimited_all_time session_db_def empty_db_def)
  have l: "loginAttempts session_db = []"
    by (simp add: session_db_def empty_db_def)
  have c: "toy_compare ''secret123'' (passwordHash admin_row)"
     "\<not> toy_compare ''guess'' (passwordHash admin_row)" "isActive admin_row"
    by (simp_all add: toy_compare_def admin_row_def)
  show ?thesis
    using g r l c
      validateCredentials_records_one_attempt
        [of toy_compare 1700000000000 "''admin''" "''secret123''" "Some ''203.0.113.7''" session_db]
      validateCredentials_records_one_attempt
        [of toy_compare 1700000000000 "''admin''" "''guess''" None session_db]
    by (simp add: next_serial_def)
qed

section \<open>The lockout of the database-backed service never ends\<close>

lemma loginAttempts_handle:
  "\<exists>ys. loginAttempts (snd (handle pk cmp q d)) = loginAttempts d @ ys"
proof (cases q)
  case (Login now u p ip)
  then show ?thesis
    by (simp add: split_def Let_def loginAttempts_validateCredentials)
next
  case (CreateSession rnd now u)
  then show ?thesis
    by (auto simp: createSession_def Db_createSession_def Let_def split: sum.splits)
next
  case (ValidateSession now sid)
  then show ?thesis
    by (simp add: validateSession_def Db_deleteSession_def split_def Let_def split: option.splits)
next
  case (DeleteSession sid)
  then show ?thesis
    by (simp add: deleteSession_def Db_deleteSession_def)
qed

lemma locked_handle:
  assumes "5 \<le> length (filter (\<lambda>a. la_username a = u \<and> \<not> successful a) (loginAttempts d))"
  shows "5 \<le> length (filter (\<lambda>a. la_username a = u \<and> \<not> successful a)
                         (loginAttempts (snd (handle pk cmp q d))))"
proof -
  obtain ys where "loginAttempts (snd (handle pk cmp q d)) = loginAttempts d @ ys"
    using loginAttempts_handle by blast
  with assms show ?thesis by simp
qed

lemma locked_validateCredentials:
  assumes "5 \<le> length (filter (\<lambda>a. la_username a = u \<and> \<not> successful a) (loginAttempts d))"
  shows "validateCredentials cmp now u p ip d =
           (\<lparr>valid = False, message = Some lockout_message\<rparr>,
            d\<lparr>loginAttempts := loginAttempts d @
                 [\<lparr>la_id = next_serial (loginAttempts d), la_username = u, la_ipAddress = ip,
                   successful = False, attemptedAt = now\<rparr>]\<rparr>)"
  using assms
  by (simp add: validateCredentials_def isRateLimited_all_time Db_recordLoginAttempt_def Let_def)

lemma length_run: "length (run pk cmp qs d) = length qs"
  by (induction qs arbitrary: d) (auto simp: split_def Let_def)

lemma locked_run:
  assumes "5 \<le> length (filter (\<lambda>a. la_username a = u \<and> \<not> successful a) (loginAttempts d))"
    and "i < length qs" and "qs ! i = Login now u p ip"
  shows "run pk cmp qs d ! i = LoginResult \<lparr>valid = False, message = Some lockout_message\<rparr>"
  using assms
proof (induction qs arbitrary: d i)
  case Nil
  then show ?case by simp
next
  case (Cons q qs)
  show ?case
  proof (cases i)
    case 0
    with Cons.prems show ?thesis
      by (simp add: split_def Let_def locked_validateCredentials)
  next
    case (Suc j)
    have "5 \<le> length (filter (\<lambda>a. la_username a = u \<and> \<not> successful a)
                         (loginAttempts (snd (handle pk cmp q d))))"
      using Cons.prems(1) by (rule locked_handle)
    moreover have "j < length qs" "qs ! j = Login now u p ip"
      using Cons.prems Suc by simp_all
    ultimately have "run pk cmp qs (snd (handle pk cmp q d)) ! j =
        LoginResult \<lparr>valid = False, message = Some lockout_message\<rparr>"
      by (rule Cons.IH)
    then show ?thesis using Suc by (simp add: split_def Let_def)
  qed
qed

text \<open>
  Claim C6. Under DatabaseStorage, once five failed LoginAttempt rows exist for a username
  \<open>u\<close>, whenever they were recorded, a call \<open>validateCredentials(u, p, ip)\<close> returns
  \<open>valid = false\<close> with the lockout message and appends one more failed attempt, for every
  password \<open>p\<close> (the verification is not reached). The same holds for every later login of
  \<open>u\<close> in any sequence of logins, session creations, session validations and session
  deletions that starts in such a state: \<open>u\<close> cannot log in again through this function.
\<close>

theorem db_lockout_is_permanent:
  assumes "5 \<le> length (filter (\<lambda>a. la_username a = u \<and> \<not> successful a) (loginAttempts d))"
  shows "validateCredentials cmp now u p ip d =
           (\<lparr>valid = False, message = Some lockout_message\<rparr>,
            d\<lparr>loginAttempts := loginAttempts d @
                 [\<lparr>la_id = next_serial (loginAttempts d), la_username = u, la_ipAddress = ip,
                   successful = False, attemptedAt = now\<rparr>]\<rparr>)
         \<and> (\<forall>i < length qs. \<forall>t p' ip'. qs ! i = Login t u p' ip' \<longrightarrow>
               run pk cmp qs d ! i = LoginResult \<lparr>valid = False, message = Some lockout_message\<rparr>)"
  using assms locked_validateCredentials locked_run by blast

theorem db_lockout_is_permanent_witness:
  "5 \<le> length (filter (\<lambda>a. la_username a = ''admin'' \<and> \<not> successful a) (loginAttempts stale_db))
   \<and> toy_compare ''secret123'' (passwordHash admin_row)
   \<and> fst (validateCredentials toy_compare 1700003600000 ''admin'' ''secret123'' None stale_db) =
       \<lparr>valid = False, message = Some lockout_message\<rparr>
   \<and> run True toy_compare
        [DeleteSession ''k3xloyw3v28'', Login 1800000000000 ''admin'' ''secret123'' None] stale_db ! 1 =
       LoginResult \<lparr>valid = False, message = Some lockout_message\<rparr>"
proof -
  have h: "5 \<le> length (filter (\<lambda>a. la_username a = ''admin'' \<and> \<not> successful a)
                          (loginAttempts stale_db))"
    by (simp add: stale_db_def empty_db_def failed_attempt_def)
  have c: "toy_compare ''secret123'' (passwordHash admin_row)"
    by (simp add: toy_compare_def admin_row_def)
  note w = db_lockout_is_permanent [OF h, of toy_compare 1700003600000 "''secret123''" None
      "[DeleteSession ''k3xloyw3v28'', Login 1800000000000 ''admin'' ''secret123'' None]" True]
  from w have "fst (validateCredentials toy_compare 1700003600000 ''admin'' ''secret123'' None stale_db) =
       \<lparr>valid = False, message = Some lockout_message\<rparr>"
    by simp
  moreover have "run True toy_compare
        [DeleteSession ''k3xloyw3v28'', Login 1800000000000 ''admin'' ''secret123'' None] stale_db ! 1 =
       LoginResult \<lparr>valid = False, message = Some lockout_message\<rparr>"
    using conjunct2 [OF w, rule_format, of 1 1800000000000 "''secret123''" None]
    by (simp del: run.simps)
  ultimately show ?thesis using h c by blast
qed

section \<open>Sessions\<close>

lemma getSession_deleteSession: "Db_getSession (Db_deleteSession d s) s = None"
  by (simp add: Db_getSession_def Db_deleteSession_def first_row_def)

lemma deleteSession_absent: "Db_getSession d s = None \<Longrightarrow> Db_deleteSession d s = d"
proof -
  assume "Db_getSession d s = None"
  then have "\<forall>x\<in>set (sessions d). s_id x \<noteq> s"
    by (simp add: Db_getSession_def first_row_None_iff)
  then have "filter (\<lambda>x. s_id x \<noteq> s) (sessions d) = sessions d"
    by simp
  then show ?thesis by (simp add: Db_deleteSession_def)
qed

text \<open>
  The sweep \<open>deleteExpiredSessions\<close> draws the line where \<open>validateSession\<close> does:
  it keeps exactly the sessions with \<open>now \<le> expiresAt\<close>.
\<close>

lemma deleteExpiredSessions_keeps:
  "x \<in> set (sessions (Db_deleteExpiredSessions d now)) \<longleftrightarrow>
     x \<in> set (sessions d) \<and> now \<le> expiresAt x"
  by (auto simp: Db_deleteExpiredSessions_def)

lemma example_getSession:
  "Db_getSession session_db ''k3xloyw3v28'' =
      Some \<lparr>s_id = ''k3xloyw3v28'', s_username = ''admin'', expiresAt = 1700086400000\<rparr>"
  by (simp add: Db_getSession_def session_db_def empty_db_def first_row_def)

lemma example_getSession_absent: "Db_getSession session_db ''never-issued'' = None"
  by (simp add: Db_getSession_def session_db_def empty_db_def first_row_def)

lemma example_generateSessionId: "generateSessionId ''k3x'' 1700000000000 = ''k3xloyw3v28''"
  by (simp add: generateSessionId_def toString36_def digit_char_def)

text \<open>
  Claim C4, as stated, at the boundary. The stored session expires at 1700086400000; a
  call at exactly that instant, where \<open>now < expiresAt\<close> is false, still returns the
  username and keeps the session: the source tests \<open>new Date() > session.expiresAt\<close>.
\<close>

theorem validateSession_boundary_counterexample:
  "Db_getSession session_db ''k3xloyw3v28'' =
      Some \<lparr>s_id = ''k3xloyw3v28'', s_username = ''admin'', expiresAt = 1700086400000\<rparr>
   \<and> \<not> (1700086400000 <
          expiresAt \<lparr>s_id = ''k3xloyw3v28'', s_username = ''admin'', expiresAt = 1700086400000\<rparr>)
   \<and> validateSession 1700086400000 ''k3xloyw3v28'' session_db = (Some ''admin'', session_db)"
  by (simp add: validateSession_def Db_getSession_def session_db_def empty_db_def first_row_def)

text \<open>
  Claim C4, amended. For every session id \<open>s\<close>, \<open>validateSession(s)\<close> returns the
  associated username if and only if the session exists and \<open>now \<le> expiresAt\<close>, and then
  leaves the store unchanged. If the session is absent it returns null and changes nothing.
  If the session is present and \<open>expiresAt < now\<close> it deletes the session and returns null,
  after which the session is absent. At the instant \<open>now = expiresAt\<close> the session is
  still valid.
\<close>

theorem validateSession_valid_until_expiry:
  "(fst (validateSession now s d) = Some u \<longleftrightarrow>
      (\<exists>x. Db_getSession d s = Some x \<and> s_username x = u \<and> now \<le> expiresAt x))
   \<and> (Db_getSession d s = None \<longrightarrow> validateSession now s d = (None, d))
   \<and> (\<forall>x. Db_getSession d s = Some x \<and> expiresAt x < now \<longrightarrow>
         validateSession now s d = (None, Db_deleteSession d s)
         \<and> Db_getSession (Db_deleteSession d s) s = None)
   \<and> (\<forall>x. Db_getSession d s = Some x \<and> now \<le> expiresAt x \<longrightarrow>
         validateSession now s d = (Some (s_username x), d))"
  by (auto simp: validateSession_def getSession_deleteSession split: option.splits)

theorem validateSession_valid_until_expiry_witness:
  "validateSession 1700086400000 ''k3xloyw3v28'' session_db = (Some ''admin'', session_db)
   \<and> validateSession 1700086400001 ''k3xloyw3v28'' session_db =
        (None, Db_deleteSession session_db ''k3xloyw3v28'')
   \<and> Db_getSession (Db_deleteSession session_db ''k3xloyw3v28'') ''k3xloyw3v28'' = None
   \<and> validateSession 1700000000500 ''never-issued'' session_db = (None, session_db)"
  using example_getSession_absent example_getSession
    validateSession_valid_until_expiry [of 1700086400000 "''k3xloyw3v28''" session_db]
    validateSession_valid_until_expiry [of 1700086400001 "''k3xloyw3v28''" session_db]
    validateSession_valid_until_expiry [of 1700000000500 "''never-issued''" session_db]
  by simp

text \<open>
  Claim C9. \<open>deleteSession\<close> is idempotent. After \<open>deleteSession(s)\<close>,
  \<open>validateSession(s)\<close> returns null and changes nothing further; a second
  \<open>deleteSession(s)\<close> leaves the store as the first one left it; and on an id that has no
  session the call leaves the store unchanged. The function has no failing branch: the
  delete statement of the source succeeds whether or not a row matches.
\<close>

theorem deleteSession_idempotent:
  "validateSession now s (deleteSession s d) = (None, deleteSession s d)
   \<and> deleteSession s (deleteSession s d) = deleteSession s d
   \<and> (Db_getSession d s = None \<longrightarrow> deleteSession s d = d)"
  by (simp add: validateSession_def deleteSession_def getSession_deleteSession deleteSession_absent)

theorem deleteSession_idempotent_witness:
  "Db_getSession session_db ''never-issued'' = None
   \<and> deleteSession ''never-issued'' session_db = session_db
   \<and> Db_getSession session_db ''k3xloyw3v28'' \<noteq> None
   \<and> validateSession 1700000000500 ''k3xloyw3v28'' (deleteSession ''k3xloyw3v28'' session_db) =
       (None, deleteSession ''k3xloyw3v28'' session_db)"
  using example_getSession_absent example_getSession
    deleteSession_idempotent [of 1700000000500 "''k3xloyw3v28''" session_db]
    deleteSession_idempotent [of 0 "''never-issued''" session_db]
  by simp

text \<open>
  Claim C8, as stated, on an id collision. \<open>session_db\<close> holds the session
  \<open>k3xloyw3v28\<close> of \<open>admin\<close>. A \<open>createSession("alice")\<close> in the millisecond
  1700000000000 whose random part is again \<open>k3x\<close> generates the same id. With a
  uniqueness constraint on \<open>sessions.id\<close> the insert, and so \<open>createSession\<close>, fails;
  without one the call returns the id, and \<open>validateSession\<close> of that id answers
  \<open>admin\<close>, not \<open>alice\<close>.
\<close>

theorem createSession_collision_counterexample:
  "createSession True ''k3x'' 1700000000000 ''alice'' session_db = Inl UniqueViolation
   \<and> createSession False ''k3x'' 1700000000000 ''alice'' session_db = Inr (''k3xloyw3v28'', collided_db)
   \<and> validateSession 1700000000000 ''k3xloyw3v28'' collided_db = (Some ''admin'', collided_db)"
  by (simp add: createSession_def example_generateSessionId Db_createSession_def collided_db_def
        Let_def session_db_def empty_db_def validateSession_def Db_getSession_def first_row_def)

text \<open>
  Claim C8, amended. For every username \<open>u\<close>, if the generated session id is not the
  id of a session already stored, \<open>createSession(u)\<close> succeeds and returns that id; it
  appends a session of \<open>u\<close> with \<open>expiresAt\<close> equal to the creation time plus 24 hours;
  and \<open>validateSession\<close> of the returned id, at any instant up to \<open>expiresAt\<close>, returns
  \<open>u\<close> and leaves the store unchanged.
\<close>

theorem createSession_roundtrip:
  assumes "generateSessionId rnd now \<notin> set (map s_id (sessions d))"
  shows "createSession pk rnd now u d =
           Inr (generateSessionId rnd now,
                d\<lparr>sessions := sessions d @
                     [\<lparr>s_id = generateSessionId rnd now, s_username = u,
                       expiresAt = now + 24 * 60 * 60 * 1000\<rparr>]\<rparr>)
         \<and> Db_getSession
               (d\<lparr>sessions := sessions d @
                     [\<lparr>s_id = generateSessionId rnd now, s_username = u,
                       expiresAt = now + 24 * 60 * 60 * 1000\<rparr>]\<rparr>)
               (generateSessionId rnd now) =
             Some \<lparr>s_id = generateSessionId rnd now, s_username = u,
                   expiresAt = now + 24 * 60 * 60 * 1000\<rparr>
         \<and> (\<forall>t. t \<le> now + 24 * 60 * 60 * 1000 \<longrightarrow>
               validateSession t (generateSessionId rnd now)
                 (d\<lparr>sessions := sessions d @
                     [\<lparr>s_id = generateSessionId rnd now, s_username = u,
                       expiresAt = now + 24 * 60 * 60 * 1000\<rparr>]\<rparr>) =
               (Some u,
                d\<lparr>sessions := sessions d @
                     [\<lparr>s_id = generateSessionId rnd now, s_username = u,
                       expiresAt = now + 24 * 60 * 60 * 1000\<rparr>]\<rparr>))"
proof -
  let ?sid = "generateSessionId rnd now"
  let ?row = "\<lparr>s_id = ?sid, s_username = u, expiresAt = now + 24 * 60 * 60 * 1000\<rparr>"
  let ?d' = "d\<lparr>sessions := sessions d @ [?row]\<rparr>"
  have c: "createSession pk rnd now u d = Inr (?sid, ?d')"
    using assms by (simp add: createSession_def Db_createSession_def Let_def)
  have "\<forall>x\<in>set (sessions d). \<not> s_id x = ?sid"
    using assms by (metis image_eqI list.set_map)
  then have g: "Db_getSession ?d' ?sid = Some ?row"
    by (simp add: Db_getSession_def first_row_def)
  have v: "\<forall>t. t \<le> now + 24 * 60 * 60 * 1000 \<longrightarrow> validateSession t ?sid ?d' = (Some u, ?d')"
    using g by (simp add: validateSession_def)
  show ?thesis using c g v by simp
qed

theorem createSession_roundtrip_witness:
  "generateSessionId ''9qz'' 1700000000000 \<notin> set (map s_id (sessions session_db))
   \<and> (\<exists>d'. createSession True ''9qz'' 1700000000000 ''alice'' session_db = Inr (''9qzloyw3v28'', d')
        \<and> validateSession 1700000000000 ''9qzloyw3v28'' d' = (Some ''alice'', d'))"
proof -
  have e: "generateSessionId ''9qz'' 1700000000000 = ''9qzloyw3v28''"
    by (simp add: generateSessionId_def toString36_def digit_char_def)
  have h: "generateSessionId ''9qz'' 1700000000000 \<notin> set (map s_id (sessions session_db))"
    by (simp add: e session_db_def empty_db_def)
  show ?thesis
    using h createSession_roundtrip [OF h, of True "''alice''"] by (simp add: e)
qed

section \<open>Unknown username and wrong password\<close>





section \<open>The rate-limit window\<close>

text \<open>
  Claim C1, on the code. \<open>stale_db\<close> holds five failed attempts of \<open>admin\<close> from about
  an hour before the call at 1700003600000, so no failed attempt lies in the trailing
  15-minute window and the claim lets the login through. The service still reports the
  account as rate limited and answers the correct password with the lockout message:
  \<open>DatabaseStorage.getRecentLoginAttempts\<close> computes \<open>cutoffTime\<close> and never applies it.
\<close>

theorem db_rate_limit_ignores_window:
  "toy_compare ''secret123'' (passwordHash admin_row)
   \<and> filter (\<lambda>a. la_username a = ''admin'' \<and> \<not> successful a
                \<and> attemptedAt a \<ge> 1700003600000 - ATTEMPT_WINDOW_MINUTES * 60 * 1000)
        (loginAttempts stale_db) = []
   \<and> isRateLimited stale_db 1700003600000 ''admin''
   \<and> fst (validateCredentials toy_compare 1700003600000 ''admin'' ''secret123''
             (Some ''203.0.113.7'') stale_db) =
       \<lparr>valid = False,
        message = Some ''Too many failed login attempts. Please try again in 15 minutes.''\<rparr>"
  by (simp add: toy_compare_def admin_row_def stale_db_def empty_db_def failed_attempt_def
        ATTEMPT_WINDOW_MINUTES_def isRateLimited_all_time validateCredentials_def
        example_lockout_message)

section \<open>Update of an unknown id\<close>

lemma db_update_unknown_id:
  assumes "column_values columns upd \<noteq> []" and "\<forall>r\<in>set tbl. \<not> has_id ident r"
  shows "db_update columns tbl ident upd = Inr (None, tbl)"
proof -
  have "upd \<noteq> []" using assms(1) by (auto simp: column_values_def)
  moreover have "filter (has_id ident) tbl = []" using assms(2) by simp
  moreover have "map (\<lambda>r. if has_id ident r then spread r (column_values columns upd) else r) tbl = tbl"
    using assms(2) by (induction tbl) auto
  ultimately show ?thesis using assms(1) by (simp add: db_update_def first_row_def Let_def)
qed

lemma mem_update_unknown_id:
  "map_of tbl ident = None \<Longrightarrow> mem_update msg tbl ident upd = Inl (NotFound msg)"
  by (simp add: mem_update_def)

text \<open>
  An update that names no column of the table is rejected as a query error whatever the
  id: a Contact and an Artist have no \<open>title\<close>.
\<close>

lemma db_update_without_column:
  "Db_updateContact empty_db ''missing'' missing_update = Inl QueryError
   \<and> Db_updateArtist empty_db ''missing'' missing_update = Inl QueryError"
  by (simp add: Db_updateContact_def Db_updateArtist_def db_update_def column_values_def
        contact_columns_def artist_columns_def missing_update_def)

text \<open>
  Claim C5, on the code. For each of the eight content entity types,
  \<open>DatabaseStorage.update...\<close> with an id that no row has, and an update of a column the
  table has (the \<open>title\<close> of a release, event, post, radio show, playlist or video, the
  \<open>name\<close> of a contact or artist), does not fail: it completes and returns \<open>undefined\<close>
  (\<open>None\<close>) where a record is declared, and the table is unchanged. (\<open>MemStorage\<close>
  throws the not-found error in the same situation, see \<open>mem_update_unknown_id\<close>.)
\<close>

theorem db_update_unknown_id_returns_undefined:
  "Db_updateRelease empty_db ''missing'' missing_update = Inr (None, empty_db)
   \<and> Db_updateEvent empty_db ''missing'' missing_update = Inr (None, empty_db)
   \<and> Db_updatePost empty_db ''missing'' missing_update = Inr (None, empty_db)
   \<and> Db_updateContact empty_db ''missing'' rename_update = Inr (None, empty_db)
   \<and> Db_updateArtist empty_db ''missing'' rename_update = Inr (None, empty_db)
   \<and> Db_updateRadioShow empty_db ''missing'' missing_update = Inr (None, empty_db)
   \<and> Db_updatePlaylist empty_db ''missing'' missing_update = Inr (None, empty_db)
   \<and> Db_updateVideo empty_db ''missing'' missing_update = Inr (None, empty_db)"
  by (simp add: Db_updateRelease_def Db_updateEvent_def Db_updatePost_def Db_updateContact_def
        Db_updateArtist_def Db_updateRadioShow_def Db_updatePlaylist_def Db_updateVideo_def
        db_update_def column_values_def first_row_def missing_update_def rename_update_def
        release_columns_def event_columns_def post_columns_def contact_columns_def
        artist_columns_def radioShow_columns_def playlist_columns_def video_columns_def
        empty_db_def)

section \<open>The two storage variants\<close>

text \<open>
  Claim C3, on the code. The two variants differ on two methods of the contract. After
  the same failed attempt was recorded in both, \<open>getRecentLoginAttempts("admin", 15)\<close>
  sixteen minutes later returns no row from \<open>MemStorage\<close> and the old row from
  \<open>DatabaseStorage\<close>. And \<open>updateRelease\<close> of an id that neither store holds throws
  \<open>Release not found\<close> in \<open>MemStorage\<close> and returns \<open>undefined\<close> from
  \<open>DatabaseStorage\<close>.
\<close>

theorem storage_variants_diverge:
  "Mem_getRecentLoginAttempts
       (snd (Mem_recordLoginAttempt (MemStorage_new demo_uuid 1700000000000) 1700000000000 old_attempt))
       1700000960000 ''admin'' 15 = []
   \<and> Db_getRecentLoginAttempts
       (snd (Db_recordLoginAttempt empty_db 1700000000000 old_attempt))
       1700000960000 ''admin'' 15 =
       [\<lparr>la_id = 1, la_username = ''admin'', la_ipAddress = Some ''203.0.113.7'',
         successful = False, attemptedAt = 1700000000000\<rparr>]
   \<and> Mem_updateRelease (MemStorage_new demo_uuid 1700000000000) ''missing'' missing_update =
       Inl (NotFound ''Release not found'')
   \<and> Db_updateRelease empty_db ''missing'' missing_update = Inr (None, empty_db)"
proof -
  have 1: "Mem_getRecentLoginAttempts
       (snd (Mem_recordLoginAttempt (MemStorage_new demo_uuid 1700000000000) 1700000000000 old_attempt))
       1700000960000 ''admin'' 15 = []"
    by (simp add: Mem_getRecentLoginAttempts_def Mem_recordLoginAttempt_def MemStorage_new_def
          seedData_def old_attempt_def Let_def)
  have 2: "Db_getRecentLoginAttempts
       (snd (Db_recordLoginAttempt empty_db 1700000000000 old_attempt))
       1700000960000 ''admin'' 15 =
       [\<lparr>la_id = 1, la_username = ''admin'', la_ipAddress = Some ''203.0.113.7'',
         successful = False, attemptedAt = 1700000000000\<rparr>]"
    by (simp add: Db_getRecentLoginAttempts_def Db_recordLoginAttempt_def empty_db_def
          old_attempt_def next_serial_def Let_def)
  have "map_of (m_releases (MemStorage_new demo_uuid 1700000000000)) ''missing'' = None"
    by (simp add: MemStorage_new_def seedData_def set_each_def seed_releases_def id_of_def
          demo_uuid_def digit_char_def Let_def)
  then have 3: "Mem_updateRelease (MemStorage_new demo_uuid 1700000000000) ''missing'' missing_update =
       Inl (NotFound ''Release not found'')"
    by (simp add: Mem_updateRelease_def mem_update_unknown_id)
  have 4: "Db_updateRelease empty_db ''missing'' missing_update = Inr (None, empty_db)"
    by (simp add: Db_updateRelease_def db_update_def column_values_def release_columns_def
          first_row_def missing_update_def empty_db_def)
  show ?thesis using 1 2 3 4 by blast
qed

section \<open>The seed data of MemStorage\<close>

lemma set_each_two:
  "a \<noteq> b \<Longrightarrow> id_of x = a \<Longrightarrow> id_of y = b \<Longrightarrow> set_each [x, y] [] = [(a, x), (b, y)]"
  by (auto simp: set_each_def)

lemma set_each_three:
  "distinct [a, b, c] \<Longrightarrow> id_of x = a \<Longrightarrow> id_of y = b \<Longrightarrow> id_of z = c \<Longrightarrow>
     set_each [x, y, z] [] = [(a, x), (b, y), (c, z)]"
  by (auto simp: set_each_def)

lemma demo_uuid_values:
  "map demo_uuid [0, 1, 2, 3, 4, 5, 6, 7, 8, 9, 10, 11] =
     [''3f2b8c1e-7a4d-4e6f-9b0a-5c1d2e3f4a10'', ''3f2b8c1e-7a4d-4e6f-9b0a-5c1d2e3f4a11'',
      ''3f2b8c1e-7a4d-4e6f-9b0a-5c1d2e3f4a12'', ''3f2b8c1e-7a4d-4e6f-9b0a-5c1d2e3f4a13'',
      ''3f2b8c1e-7a4d-4e6f-9b0a-5c1d2e3f4a14'', ''3f2b8c1e-7a4d-4e6f-9b0a-5c1d2e3f4a15'',
      ''3f2b8c1e-7a4d-4e6f-9b0a-5c1d2e3f4a16'', ''3f2b8c1e-7a4d-4e6f-9b0a-5c1d2e3f4a17'',
      ''3f2b8c1e-7a4d-4e6f-9b0a-5c1d2e3f4a18'', ''3f2b8c1e-7a4d-4e6f-9b0a-5c1d2e3f4a19'',
      ''3f2b8c1e-7a4d-4e6f-9b0a-5c1d2e3f4a20'', ''3f2b8c1e-7a4d-4e6f-9b0a-5c1d2e3f4a21'']"
  by (simp add: demo_uuid_def digit_char_def)

text \<open>
  Claim C10. A freshly constructed \<open>MemStorage\<close> holds the demo content: when the
  identifiers drawn by \<open>randomUUID()\<close> for the entries of one map are pairwise distinct,
  \<open>getAllArtists\<close> returns the 3 seeded artists, \<open>getAllReleases\<close> the 3 seeded releases,
  \<open>getAllEvents\<close> the 2 seeded events, \<open>getAllPosts\<close> the 2 seeded posts and
  \<open>getAllRadioShows\<close> the 2 seeded shows, each in seed order, while \<open>getAllContacts\<close>,
  \<open>getAllPlaylists\<close> and \<open>getAllVideos\<close> return empty lists.
\<close>

theorem fresh_MemStorage_holds_demo_content:
  assumes "distinct [uuid 0, uuid 1, uuid 2]" and "distinct [uuid 3, uuid 4, uuid 5]"
    and "uuid 6 \<noteq> uuid 7" and "uuid 8 \<noteq> uuid 9" and "uuid 10 \<noteq> uuid 11"
  shows "Mem_getAllArtists (MemStorage_new uuid now) = seed_artists uuid now
         \<and> length (Mem_getAllArtists (MemStorage_new uuid now)) = 3
         \<and> Mem_getAllReleases (MemStorage_new uuid now) = seed_releases uuid now
         \<and> length (Mem_getAllReleases (MemStorage_new uuid now)) = 3
         \<and> Mem_getAllEvents (MemStorage_new uuid now) = seed_events uuid now
         \<and> length (Mem_getAllEvents (MemStorage_new uuid now)) = 2
         \<and> Mem_getAllPosts (MemStorage_new uuid now) = seed_posts uuid now
         \<and> length (Mem_getAllPosts (MemStorage_new uuid now)) = 2
         \<and> Mem_getAllRadioShows (MemStorage_new uuid now) = seed_shows uuid now
         \<and> length (Mem_getAllRadioShows (MemStorage_new uuid now)) = 2
         \<and> Mem_getAllContacts (MemStorage_new uuid now) = []
         \<and> Mem_getAllPlaylists (MemStorage_new uuid now) = []
         \<and> Mem_getAllVideos (MemStorage_new uuid now) = []"
proof -
  have a: "m_artists (MemStorage_new uuid now) = map (\<lambda>x. (id_of x, x)) (seed_artists uuid now)"
    using assms(1)
    by (simp add: MemStorage_new_def seedData_def Let_def seed_artists_def set_each_three id_of_def)
  have r: "m_releases (MemStorage_new uuid now) = map (\<lambda>x. (id_of x, x)) (seed_releases uuid now)"
    using assms(2)
    by (simp add: MemStorage_new_def seedData_def Let_def seed_releases_def set_each_three id_of_def)
  have e: "m_events (MemStorage_new uuid now) = map (\<lambda>x. (id_of x, x)) (seed_events uuid now)"
    using assms(3)
    by (simp add: MemStorage_new_def seedData_def Let_def seed_events_def set_each_two id_of_def)
  have p: "m_posts (MemStorage_new uuid now) = map (\<lambda>x. (id_of x, x)) (seed_posts uuid now)"
    using assms(4)
    by (simp add: MemStorage_new_def seedData_def Let_def seed_posts_def set_each_two id_of_def)
  have s: "m_radioShows (MemStorage_new uuid now) = map (\<lambda>x. (id_of x, x)) (seed_shows uuid now)"
    using assms(5)
    by (simp add: MemStorage_new_def seedData_def Let_def seed_shows_def set_each_two id_of_def)
  have c: "m_contacts (MemStorage_new uuid now) = []"
    by (simp add: MemStorage_new_def seedData_def Let_def)
  have l: "m_playlists (MemStorage_new uuid now) = []"
    by (simp add: MemStorage_new_def seedData_def Let_def)
  have v: "m_videos (MemStorage_new uuid now) = []"
    by (simp add: MemStorage_new_def seedData_def Let_def)
  have la: "length (seed_artists uuid now) = 3" by (simp add: seed_artists_def)
  have lr: "length (seed_releases uuid now) = 3" by (simp add: seed_releases_def)
  have le: "length (seed_events uuid now) = 2" by (simp add: seed_events_def)
  have lp: "length (seed_posts uuid now) = 2" by (simp add: seed_posts_def)
  have ls: "length (seed_shows uuid now) = 2" by (simp add: seed_shows_def)
  show ?thesis
    by (simp add: Mem_getAllArtists_def Mem_getAllReleases_def Mem_getAllEvents_def
          Mem_getAllPosts_def Mem_getAllRadioShows_def Mem_getAllContacts_def
          Mem_getAllPlaylists_def Mem_getAllVideos_def map_values_def
          a r e p s c l v la lr le lp ls comp_def)
qed

theorem fresh_MemStorage_holds_demo_content_witness:
  "distinct [demo_uuid 0, demo_uuid 1, demo_uuid 2]
   \<and> distinct [demo_uuid 3, demo_uuid 4, demo_uuid 5]
   \<and> demo_uuid 6 \<noteq> demo_uuid 7 \<and> demo_uuid 8 \<noteq> demo_uuid 9 \<and> demo_uuid 10 \<noteq> demo_uuid 11
   \<and> length (Mem_getAllArtists (MemStorage_new demo_uuid 1700000000000)) = 3
   \<and> length (Mem_getAllReleases (MemStorage_new demo_uuid 1700000000000)) = 3
   \<and> length (Mem_getAllEvents (MemStorage_new demo_uuid 1700000000000)) = 2
   \<and> length (Mem_getAllPosts (MemStorage_new demo_uuid 1700000000000)) = 2
   \<and> length (Mem_getAllRadioShows (MemStorage_new demo_uuid 1700000000000)) = 2
   \<and> Mem_getAllContacts (MemStorage_new demo_uuid 1700000000000) = []
   \<and> Mem_getAllPlaylists (MemStorage_new demo_uuid 1700000000000) = []
   \<and> Mem_getAllVideos (MemStorage_new demo_uuid 1700000000000) = []"
proof -
  have 1: "distinct [demo_uuid 0, demo_uuid 1, demo_uuid 2]"
    using demo_uuid_values by simp
  have 2: "distinct [demo_uuid 3, demo_uuid 4, demo_uuid 5]"
    using demo_uuid_values by simp
  have 3: "demo_uuid 6 \<noteq> demo_uuid 7" using demo_uuid_values by simp
  have 4: "demo_uuid 8 \<noteq> demo_uuid 9" using demo_uuid_values by simp
  have 5: "demo_uuid 10 \<noteq> demo_uuid 11" using demo_uuid_values by simp
  show ?thesis
    using 1 2 3 4 5 fresh_MemStorage_holds_demo_content [OF 1 2 3 4 5, of 1700000000000]
    by blast
qed

end
